theory Spec2Isabelle
  imports Main "HOL-Library.Sublist"
begin

section \<open>The validation script \<^verbatim>\<open>src/utils/validate.py\<close>\<close>

text \<open>
  The script checks that the files of a browser extension exist next to it and that
  \<^verbatim>\<open>manifest.json\<close> parses as JSON. It prints a report and returns 0 or 1.

  The embedding threads a \<open>world\<close> through every function: the files on disk, the lines
  written to standard output (one list element for each call of \<^verbatim>\<open>print\<close>), and the
  file-system calls made so far. Strings are lists of 8-bit characters, read as the code
  points 0 to 255.
\<close>

subsection \<open>Python values and their text\<close>

text \<open>
  What \<^verbatim>\<open>json.load\<close> returns: \<^verbatim>\<open>None\<close>, a bool, an int, a float, a str, a list or a
  dict with string keys. A float is kept as its \<^verbatim>\<open>repr\<close> text (\<^verbatim>\<open>'1.5'\<close>, \<^verbatim>\<open>'nan'\<close>,
  \<^verbatim>\<open>'inf'\<close>), which is all the script can observe of it. A dict is the list of its
  items in insertion order; its keys are distinct.
\<close>

datatype json =
    JNull
  | JBool bool
  | JInt int
  | JFloat string
  | JString string
  | JArray "json list"
  | JObject "(string \<times> json) list"

text \<open>Python's \<^verbatim>\<open>bool(v)\<close>, as the \<^verbatim>\<open>if valid and manifest_data\<close> of line 50 applies it.\<close>

fun truthy :: "json \<Rightarrow> bool" where
  "truthy JNull = False"
| "truthy (JBool b) = b"
| "truthy (JInt i) = (i \<noteq> 0)"
| "truthy (JFloat r) = (r \<noteq> ''0.0'' \<and> r \<noteq> ''-0.0'')"
| "truthy (JString s) = (s \<noteq> [])"
| "truthy (JArray xs) = (xs \<noteq> [])"
| "truthy (JObject kvs) = (kvs \<noteq> [])"

fun is_dict :: "json \<Rightarrow> bool" where
  "is_dict (JObject kvs) = True"
| "is_dict _ = False"

fun type_name :: "json \<Rightarrow> string" where
  "type_name JNull = ''NoneType''"
| "type_name (JBool b) = ''bool''"
| "type_name (JInt i) = ''int''"
| "type_name (JFloat r) = ''float''"
| "type_name (JString s) = ''str''"
| "type_name (JArray xs) = ''list''"
| "type_name (JObject kvs) = ''dict''"

text \<open>\<^verbatim>\<open>d.get(key)\<close>: the value stored under the key, \<^verbatim>\<open>None\<close> when there is none.\<close>

definition dict_get :: "(string \<times> json) list \<Rightarrow> string \<Rightarrow> json" where
  "dict_get d key = (case map_of d key of None \<Rightarrow> JNull | Some v \<Rightarrow> v)"

text \<open>Decimal text of a number, as \<^verbatim>\<open>str\<close> gives it for an int.\<close>

fun str_nat :: "nat \<Rightarrow> string" where
  "str_nat n =
     (if n < 10 then [''0123456789'' ! n]
      else str_nat (n div 10) @ [''0123456789'' ! (n mod 10)])"

declare str_nat.simps [simp del]

definition str_int :: "int \<Rightarrow> string" where
  "str_int i = (if i < 0 then CHR ''-'' # str_nat (nat (- i)) else str_nat (nat i))"

text \<open>
  \<^verbatim>\<open>repr\<close> of a str: single quotes, unless the text has a single quote and no double
  quote; the quote and the backslash are escaped, tab, newline and carriage return are
  written \<^verbatim>\<open>\t\<close>, \<^verbatim>\<open>\n\<close>, \<^verbatim>\<open>\r\<close>, and every other character that is not printable
  is written \<^verbatim>\<open>\xhh\<close>.
\<close>

definition hex2 :: "nat \<Rightarrow> string" where
  "hex2 n = [''0123456789abcdef'' ! (n div 16), ''0123456789abcdef'' ! (n mod 16)]"

definition repr_quote :: "string \<Rightarrow> char" where
  "repr_quote s = (if CHR 0x27 \<in> set s \<and> CHR 0x22 \<notin> set s then CHR 0x22 else CHR 0x27)"

definition repr_char :: "char \<Rightarrow> char \<Rightarrow> string" where
  "repr_char quote ch =
     (let n = (of_char ch :: nat) in
      if ch = quote \<or> ch = CHR 0x5C then [CHR 0x5C, ch]
      else if ch = CHR 0x09 then [CHR 0x5C, CHR ''t'']
      else if ch = CHR 0x0A then [CHR 0x5C, CHR ''n'']
      else if ch = CHR 0x0D then [CHR 0x5C, CHR ''r'']
      else if n < 32 \<or> n = 127 then [CHR 0x5C, CHR ''x''] @ hex2 n
      else if n < 127 then [ch]
      else if n \<le> 160 \<or> n = 173 then [CHR 0x5C, CHR ''x''] @ hex2 n
      else [ch])"

definition repr_str :: "string \<Rightarrow> string" where
  "repr_str s = (let quote = repr_quote s in quote # concat (map (repr_char quote) s) @ [quote])"

text \<open>\<^verbatim>\<open>sep.join(parts)\<close>.\<close>

fun str_join :: "string \<Rightarrow> string list \<Rightarrow> string" where
  "str_join sep [] = []"
| "str_join sep [x] = x"
| "str_join sep (x # y # ys) = x @ sep @ str_join sep (y # ys)"

text \<open>\<^verbatim>\<open>repr(v)\<close> and \<^verbatim>\<open>str(v)\<close>; they differ on a str only.\<close>

fun py_repr :: "json \<Rightarrow> string" where
  "py_repr JNull = ''None''"
| "py_repr (JBool b) = (if b then ''True'' else ''False'')"
| "py_repr (JInt i) = str_int i"
| "py_repr (JFloat r) = r"
| "py_repr (JString s) = repr_str s"
| "py_repr (JArray xs) = ''['' @ str_join '', '' (map py_repr xs) @ '']''"
| "py_repr (JObject kvs) =
     ''{'' @ str_join '', '' (map (\<lambda>kv. repr_str (fst kv) @ '': '' @ py_repr (snd kv)) kvs) @ ''}''"

definition py_str :: "json \<Rightarrow> string" where
  "py_str v = (case v of JString s \<Rightarrow> s | _ \<Rightarrow> py_repr v)"

subsection \<open>The world: files, standard output, file-system calls\<close>

text \<open>
  What \<^verbatim>\<open>open(path, 'r', encoding='utf-8')\<close> followed by \<^verbatim>\<open>json.load\<close> does on an
  existing path: it returns a value, raises \<^verbatim>\<open>json.JSONDecodeError\<close>, or raises another
  exception (no permission, a directory, bytes that are not UTF-8); the string is the
  exception's text. The JSON parser is the standard library's and is not modelled: the
  outcome is part of the file.
\<close>

datatype load_result =
    Loaded json
  | Raises_JSONDecodeError string
  | Raises_Exception string

record entry =
  st_size :: nat
  json_load :: load_result

datatype access = Stat string | Open_read string

record world =
  files :: "string \<rightharpoonup> entry"
  stdout :: "string list"
  syscalls :: "access list"

datatype exn = AttributeError string | FileNotFoundError string

definition start :: "(string \<rightharpoonup> entry) \<Rightarrow> world" where
  "start fs = \<lparr>files = fs, stdout = [], syscalls = []\<rparr>"

definition print :: "string \<Rightarrow> world \<Rightarrow> world" where
  "print line w = w\<lparr>stdout := stdout w @ [line]\<rparr>"

definition errno2 :: "string \<Rightarrow> string" where
  "errno2 path = ''[Errno 2] No such file or directory: '' @ repr_str path"

definition os_path_exists :: "string \<Rightarrow> world \<Rightarrow> bool \<times> world" where
  "os_path_exists path w = (files w path \<noteq> None, w\<lparr>syscalls := syscalls w @ [Stat path]\<rparr>)"

definition os_path_getsize :: "string \<Rightarrow> world \<Rightarrow> (exn + nat) \<times> world" where
  "os_path_getsize path w =
     (case files w path of
        None \<Rightarrow> Inl (FileNotFoundError (errno2 path))
      | Some e \<Rightarrow> Inr (st_size e),
      w\<lparr>syscalls := syscalls w @ [Stat path]\<rparr>)"

text \<open>Lines 24 and 25: open for reading and parse. A path that does not exist raises
  \<^verbatim>\<open>FileNotFoundError\<close>, which is not a \<^verbatim>\<open>JSONDecodeError\<close>.\<close>

definition open_json_load :: "string \<Rightarrow> world \<Rightarrow> load_result \<times> world" where
  "open_json_load path w =
     (case files w path of
        None \<Rightarrow> Raises_Exception (errno2 path)
      | Some e \<Rightarrow> json_load e,
      w\<lparr>syscalls := syscalls w @ [Open_read path]\<rparr>)"

text \<open>\<^verbatim>\<open>posixpath.join\<close> of two components.\<close>

definition path_join :: "string \<Rightarrow> string \<Rightarrow> string" where
  "path_join a b =
     (if prefix ''/'' b then b
      else if a = [] \<or> last a = CHR ''/'' then a @ b
      else a @ ''/'' @ b)"

subsection \<open>The script\<close>

text \<open>The two lines of \<^verbatim>\<open>check_file_exists\<close> (lines 15 and 18).\<close>

definition ok_line :: "string \<Rightarrow> string \<Rightarrow> nat \<Rightarrow> string" where
  "ok_line description filepath sz =
     ''[OK] '' @ description @ '': '' @ filepath @ '' ('' @ str_nat sz @ '' bytes)''"

definition missing_line :: "string \<Rightarrow> string \<Rightarrow> string" where
  "missing_line description filepath =
     ''[FAIL] '' @ description @ '': '' @ filepath @ '' - MISSING!''"

definition check_file_exists :: "string \<Rightarrow> string \<Rightarrow> world \<Rightarrow> (exn + bool) \<times> world" where
  "check_file_exists filepath description w =
     (case os_path_exists filepath w of
        (True, w1) \<Rightarrow>
          (case os_path_getsize filepath w1 of
             (Inl e, w2) \<Rightarrow> (Inl e, w2)
           | (Inr sz, w2) \<Rightarrow> (Inr True, print (ok_line description filepath sz) w2))
      | (False, w1) \<Rightarrow> (Inr False, print (missing_line description filepath) w1))"

text \<open>\<^verbatim>\<open>validate_json\<close> (lines 21 to 33) returns the pair \<^verbatim>\<open>(valid, data)\<close>.\<close>

definition validate_json :: "string \<Rightarrow> world \<Rightarrow> (bool \<times> json) \<times> world" where
  "validate_json filepath w =
     (case open_json_load filepath w of
        (Loaded data, w1) \<Rightarrow> ((True, data), print (''[OK] Valid JSON: '' @ filepath) w1)
      | (Raises_JSONDecodeError e, w1) \<Rightarrow>
          ((False, JNull), print (''[FAIL] Invalid JSON in '' @ filepath @ '': '' @ e) w1)
      | (Raises_Exception e, w1) \<Rightarrow>
          ((False, JNull), print (''[FAIL] Error reading '' @ filepath @ '': '' @ e) w1))"

text \<open>
  The body shared by the four loops of \<^verbatim>\<open>main\<close> (lines 61 to 63, 74 to 76, 89 to 91
  and 101 to 103): \<^verbatim>\<open>all_valid = all_valid and check_file_exists(filepath, desc)\<close>.
  Python's \<^verbatim>\<open>and\<close> does not evaluate its right operand when the left one is false.
\<close>

fun check_files ::
  "string \<Rightarrow> (string \<times> string) list \<Rightarrow> bool \<Rightarrow> world \<Rightarrow> (exn + bool) \<times> world" where
  "check_files base_dir [] all_valid w = (Inr all_valid, w)"
| "check_files base_dir ((filename, desc) # rest) all_valid w =
     (let filepath = path_join base_dir filename in
      if all_valid then
        (case check_file_exists filepath desc w of
           (Inl e, w1) \<Rightarrow> (Inl e, w1)
         | (Inr ok, w1) \<Rightarrow> check_files base_dir rest ok w1)
      else check_files base_dir rest False w)"

definition html_files :: "(string \<times> string) list" where
  "html_files = [(''sidepanel.html'', ''Side Panel'')]"

definition css_files :: "(string \<times> string) list" where
  "css_files =
     [(''styles/variables.css'', ''Design tokens''),
      (''styles/components.css'', ''UI components''),
      (''styles/animations.css'', ''Animations''),
      (''styles/sidepanel.css'', ''Side Panel styles'')]"

definition js_files :: "(string \<times> string) list" where
  "js_files =
     [(''scripts/sidepanel.js'', ''Side Panel logic''),
      (''scripts/modal-manager.js'', ''Modal manager''),
      (''scripts/tab-manager.js'', ''Tab manager''),
      (''scripts/storage-manager.js'', ''Storage manager''),
      (''scripts/background.js'', ''Background worker''),
      (''scripts/content-intent-capture.js'', ''Content script'')]"

definition icon_files :: "(string \<times> string) list" where
  "icon_files =
     [(''assets/icons/icon16.png'', ''16x16 icon''),
      (''assets/icons/icon48.png'', ''48x48 icon''),
      (''assets/icons/icon192.png'', ''128x128 icon'')]"

text \<open>Lines 50 to 53: the three fields, read with \<^verbatim>\<open>manifest_data.get\<close>. Only a dict has
  \<^verbatim>\<open>get\<close>; on any other value the first lookup raises before anything is printed.\<close>

definition print_fields :: "json \<Rightarrow> world \<Rightarrow> exn + world" where
  "print_fields manifest_data w =
     (case manifest_data of
        JObject d \<Rightarrow>
          Inr (print (''   Manifest Version: '' @ py_str (dict_get d ''manifest_version''))
              (print (''   Version: '' @ py_str (dict_get d ''version''))
              (print (''   Name: '' @ py_str (dict_get d ''name'')) w)))
      | _ \<Rightarrow>
          Inl (AttributeError
            (repr_str (type_name manifest_data) @ '' object has no attribute '' @ repr_str ''get'')))"

text \<open>Lines 45 to 54: step 1, the manifest.\<close>

definition check_manifest :: "string \<Rightarrow> bool \<Rightarrow> world \<Rightarrow> (exn + bool) \<times> world" where
  "check_manifest base_dir all_valid w =
     (let w1 = print ''1. Checking manifest.json...'' w;
          manifest_path = path_join base_dir ''manifest.json''
      in case validate_json manifest_path w1 of
           ((valid, manifest_data), w2) \<Rightarrow>
             if valid \<and> truthy manifest_data then
               (case print_fields manifest_data w2 of
                  Inl e \<Rightarrow> (Inl e, w2)
                | Inr w3 \<Rightarrow> (Inr (all_valid \<and> valid), print [] w3))
             else (Inr (all_valid \<and> valid), print [] w2))"

text \<open>One of the steps 2 to 5: the heading, the loop over the step's files, an empty line.\<close>

definition check_section ::
  "string \<Rightarrow> string \<Rightarrow> (string \<times> string) list \<Rightarrow> bool \<Rightarrow> world \<Rightarrow> (exn + bool) \<times> world" where
  "check_section heading base_dir file_list all_valid w =
     (case check_files base_dir file_list all_valid (print heading w) of
        (Inl e, w1) \<Rightarrow> (Inl e, w1)
      | (Inr ok, w1) \<Rightarrow> (Inr ok, print [] w1))"

text \<open>Lines 107 to 125: the summary and the return value.\<close>

definition summary :: "string \<Rightarrow> bool \<Rightarrow> world \<Rightarrow> int \<times> world" where
  "summary base_dir all_valid w =
     (let w1 = print (replicate 60 (CHR ''='')) w in
      if all_valid then
        (0, print (replicate 60 (CHR ''=''))
           (print (''4. Select this folder: '' @ base_dir)
           (print (''3. Click 'Load unpacked'' @ [CHR 0x27])
           (print (''2. Enable 'Developer mode'' @ [CHR 0x27])
           (print ''1. Open chrome://extensions/ in Chrome''
           (print ''Next steps:''
           (print []
           (print ''Your extension is ready to load in Chrome!''
           (print []
           (print ''[SUCCESS] ALL CHECKS PASSED!'' w1))))))))))
      else
        (1, print (replicate 60 (CHR ''=''))
           (print ''Please fix the issues above before loading the extension.''
           (print []
           (print ''[ERROR] SOME CHECKS FAILED!'' w1)))))"

text \<open>
  \<^verbatim>\<open>main\<close> (lines 35 to 125). \<open>base_dir\<close> is the directory of the script,
  \<^verbatim>\<open>os.path.dirname(os.path.abspath(__file__))\<close>. The result is the exit code returned,
  or the exception that left \<^verbatim>\<open>main\<close>, with the world as it was then.
\<close>

definition main :: "string \<Rightarrow> world \<Rightarrow> (exn + int) \<times> world" where
  "main base_dir w =
     (let w1 = print []
                (print (replicate 60 (CHR ''=''))
                (print ''TAB MEMORY ASSISTANT - VALIDATION CHECK''
                (print (replicate 60 (CHR ''='')) w)));
          all_valid = True
      in case check_manifest base_dir all_valid w1 of
           (Inl e, w2) \<Rightarrow> (Inl e, w2)
         | (Inr all_valid, w2) \<Rightarrow>
      (case check_section ''2. Checking HTML files...'' base_dir html_files all_valid w2 of
           (Inl e, w3) \<Rightarrow> (Inl e, w3)
         | (Inr all_valid, w3) \<Rightarrow>
      (case check_section ''3. Checking CSS files...'' base_dir css_files all_valid w3 of
           (Inl e, w4) \<Rightarrow> (Inl e, w4)
         | (Inr all_valid, w4) \<Rightarrow>
      (case check_section ''4. Checking JavaScript files...'' base_dir js_files all_valid w4 of
           (Inl e, w5) \<Rightarrow> (Inl e, w5)
         | (Inr all_valid, w5) \<Rightarrow>
      (case check_section ''5. Checking icon files...'' base_dir icon_files all_valid w5 of
           (Inl e, w6) \<Rightarrow> (Inl e, w6)
         | (Inr all_valid, w6) \<Rightarrow>
      (case summary base_dir all_valid w6 of
           (code, w7) \<Rightarrow> (Inr code, w7)))))))"

text \<open>
  Lines 127 and 128: \<^verbatim>\<open>sys.exit(main())\<close>. The script never reads \<^verbatim>\<open>sys.argv\<close>. An
  exception that leaves \<^verbatim>\<open>main\<close> is not caught: the interpreter writes a traceback to
  standard error and the process ends.
\<close>

datatype outcome = Exit int | Traceback exn

definition script :: "string list \<Rightarrow> string \<Rightarrow> world \<Rightarrow> outcome \<times> world" where
  "script argv base_dir w =
     (case main base_dir w of
        (Inl e, w1) \<Rightarrow> (Traceback e, w1)
      | (Inr code, w1) \<Rightarrow> (Exit code, w1))"

subsection \<open>The paths the script expects\<close>

definition checked_files :: "(string \<times> string) list" where
  "checked_files = html_files @ css_files @ js_files @ icon_files"

definition manifest_path :: "string \<Rightarrow> string" where
  "manifest_path base_dir = path_join base_dir ''manifest.json''"

definition checked_paths :: "string \<Rightarrow> string list" where
  "checked_paths base_dir = map (\<lambda>fd. path_join base_dir (fst fd)) checked_files"


subsection \<open>What a run prints and reads, as functions of the files\<close>

text \<open>
  The functions below describe a run without the world: the lines the loops print, the
  calls they make, and the lines of the other steps. The lemmas of the next section show
  that the script computes exactly these.
\<close>

definition paths_exist :: "(string \<rightharpoonup> entry) \<Rightarrow> string list \<Rightarrow> bool" where
  "paths_exist F ps = list_all (\<lambda>p. F p \<noteq> None) ps"

definition paths_of :: "string \<Rightarrow> (string \<times> string) list \<Rightarrow> string list" where
  "paths_of base_dir file_list = map (\<lambda>fd. path_join base_dir (fst fd)) file_list"

fun report_lines ::
  "(string \<rightharpoonup> entry) \<Rightarrow> string \<Rightarrow> (string \<times> string) list \<Rightarrow> bool \<Rightarrow> string list" where
  "report_lines F base_dir [] all_valid = []"
| "report_lines F base_dir ((filename, desc) # rest) all_valid =
     (if all_valid then
        (case F (path_join base_dir filename) of
           None \<Rightarrow> [missing_line desc (path_join base_dir filename)]
         | Some e \<Rightarrow>
             ok_line desc (path_join base_dir filename) (st_size e)
               # report_lines F base_dir rest True)
      else [])"

fun stat_calls ::
  "(string \<rightharpoonup> entry) \<Rightarrow> string \<Rightarrow> (string \<times> string) list \<Rightarrow> bool \<Rightarrow> access list" where
  "stat_calls F base_dir [] all_valid = []"
| "stat_calls F base_dir ((filename, desc) # rest) all_valid =
     (if all_valid then
        (case F (path_join base_dir filename) of
           None \<Rightarrow> [Stat (path_join base_dir filename)]
         | Some e \<Rightarrow>
             Stat (path_join base_dir filename) # Stat (path_join base_dir filename)
               # stat_calls F base_dir rest True)
      else [])"

text \<open>Step 1: what loading the manifest gives, and the lines that follow its heading.\<close>

definition manifest_outcome :: "(string \<rightharpoonup> entry) \<Rightarrow> string \<Rightarrow> load_result" where
  "manifest_outcome F base_dir =
     (case F (manifest_path base_dir) of
        None \<Rightarrow> Raises_Exception (errno2 (manifest_path base_dir))
      | Some e \<Rightarrow> json_load e)"

fun validate_line :: "string \<Rightarrow> load_result \<Rightarrow> string" where
  "validate_line filepath (Loaded data) = ''[OK] Valid JSON: '' @ filepath"
| "validate_line filepath (Raises_JSONDecodeError e) =
     ''[FAIL] Invalid JSON in '' @ filepath @ '': '' @ e"
| "validate_line filepath (Raises_Exception e) =
     ''[FAIL] Error reading '' @ filepath @ '': '' @ e"

definition field_lines :: "(string \<times> json) list \<Rightarrow> string list" where
  "field_lines d =
     [''   Name: '' @ py_str (dict_get d ''name''),
      ''   Version: '' @ py_str (dict_get d ''version''),
      ''   Manifest Version: '' @ py_str (dict_get d ''manifest_version'')]"


definition banner_lines :: "string list" where
  "banner_lines =
     [replicate 60 (CHR ''=''), ''TAB MEMORY ASSISTANT - VALIDATION CHECK'',
      replicate 60 (CHR ''=''), []]"

definition section_headings :: "string list" where
  "section_headings =
     [''1. Checking manifest.json...'', ''2. Checking HTML files...'',
      ''3. Checking CSS files...'', ''4. Checking JavaScript files...'',
      ''5. Checking icon files...'']"

definition sections_lines :: "(string \<rightharpoonup> entry) \<Rightarrow> string \<Rightarrow> bool \<Rightarrow> string list" where
  "sections_lines F base_dir all_valid =
     (let v2 = (all_valid \<and> paths_exist F (paths_of base_dir html_files));
          v3 = (v2 \<and> paths_exist F (paths_of base_dir css_files));
          v4 = (v3 \<and> paths_exist F (paths_of base_dir js_files))
      in ''2. Checking HTML files...'' # report_lines F base_dir html_files all_valid @ [[]]
         @ ''3. Checking CSS files...'' # report_lines F base_dir css_files v2 @ [[]]
         @ ''4. Checking JavaScript files...'' # report_lines F base_dir js_files v3 @ [[]]
         @ ''5. Checking icon files...'' # report_lines F base_dir icon_files v4 @ [[]])"

definition summary_lines :: "string \<Rightarrow> bool \<Rightarrow> string list" where
  "summary_lines base_dir all_valid =
     (if all_valid then
        [replicate 60 (CHR ''=''), ''[SUCCESS] ALL CHECKS PASSED!'', [],
         ''Your extension is ready to load in Chrome!'', [], ''Next steps:'',
         ''1. Open chrome://extensions/ in Chrome'',
         ''2. Enable 'Developer mode'' @ [CHR 0x27],
         ''3. Click 'Load unpacked'' @ [CHR 0x27],
         ''4. Select this folder: '' @ base_dir, replicate 60 (CHR ''='')]
      else
        [replicate 60 (CHR ''=''), ''[ERROR] SOME CHECKS FAILED!'', [],
         ''Please fix the issues above before loading the extension.'',
         replicate 60 (CHR ''='')])"

text \<open>The four loops of \<^verbatim>\<open>main\<close> in a row, as \<^verbatim>\<open>main\<close> nests them.\<close>

definition steps_2_to_5 :: "string \<Rightarrow> bool \<Rightarrow> world \<Rightarrow> (exn + bool) \<times> world" where
  "steps_2_to_5 base_dir all_valid w =
     (case check_section ''2. Checking HTML files...'' base_dir html_files all_valid w of
        (Inl e, w3) \<Rightarrow> (Inl e, w3)
      | (Inr v2, w3) \<Rightarrow>
     (case check_section ''3. Checking CSS files...'' base_dir css_files v2 w3 of
        (Inl e, w4) \<Rightarrow> (Inl e, w4)
      | (Inr v3, w4) \<Rightarrow>
     (case check_section ''4. Checking JavaScript files...'' base_dir js_files v3 w4 of
        (Inl e, w5) \<Rightarrow> (Inl e, w5)
      | (Inr v4, w5) \<Rightarrow>
          check_section ''5. Checking icon files...'' base_dir icon_files v4 w5)))"

text \<open>The value \<^verbatim>\<open>all_valid\<close> has after step 1, or the exception that step 1 raises.\<close>

definition manifest_check :: "(string \<rightharpoonup> entry) \<Rightarrow> string \<Rightarrow> exn + bool" where
  "manifest_check F base_dir = fst (check_manifest base_dir True (start F))"

subsection \<open>Example directories\<close>

text \<open>
  An extension unpacked in \<^verbatim>\<open>/ext\<close>: every checked file is there, and the manifest
  loads as given. A checked file is no JSON; the script never parses one.
\<close>

definition plain_file :: entry where
  "plain_file =
     \<lparr>st_size = 2048,
      json_load = Raises_JSONDecodeError ''Expecting value: line 1 column 1 (char 0)''\<rparr>"

definition ext_dir :: "load_result \<Rightarrow> string \<rightharpoonup> entry" where
  "ext_dir manifest =
     map_of ((''/ext/manifest.json'', \<lparr>st_size = 731, json_load = manifest\<rparr>)
             # map (\<lambda>p. (p, plain_file)) (checked_paths ''/ext''))"

definition tab_story :: json where
  "tab_story =
     JObject [(''manifest_version'', JInt 3), (''name'', JString ''Tab Story''),
              (''version'', JString ''1.0.0'')]"

section \<open>Properties\<close>

subsection \<open>The script computes the closed forms\<close>

lemma print_simps [simp]:
  "files (print s w) = files w" "syscalls (print s w) = syscalls w"
  "stdout (print s w) = stdout w @ [s]"
  by (simp_all add: print_def)

lemma check_file_exists_closed:
  "check_file_exists p d w =
     (case files w p of
        None \<Rightarrow> (Inr False, w\<lparr>stdout := stdout w @ [missing_line d p],
                               syscalls := syscalls w @ [Stat p]\<rparr>)
      | Some e \<Rightarrow> (Inr True, w\<lparr>stdout := stdout w @ [ok_line d p (st_size e)],
                               syscalls := syscalls w @ [Stat p, Stat p]\<rparr>))"
  by (simp add: check_file_exists_def os_path_exists_def os_path_getsize_def print_def
      split: option.splits)

lemma stat_calls_False [simp]: "stat_calls F b fs False = []"
  by (cases fs) auto

lemma report_lines_False [simp]: "report_lines F b fs False = []"
  by (cases fs) auto

lemma check_files_closed:
  "check_files b fs av w =
     (Inr (av \<and> paths_exist (files w) (paths_of b fs)),
      w\<lparr>stdout := stdout w @ report_lines (files w) b fs av,
        syscalls := syscalls w @ stat_calls (files w) b fs av\<rparr>)"
proof (induction fs arbitrary: av w)
  case Nil
  show ?case by (simp add: paths_exist_def paths_of_def)
next
  case (Cons fd fs)
  obtain f d where fd: "fd = (f, d)" by (cases fd)
  show ?case
  proof (cases av)
    case False
    then show ?thesis using Cons.IH [of False w] by (simp add: fd)
  next
    case True
    show ?thesis
      by (cases "files w (path_join b f)")
         (simp_all add: fd True check_file_exists_closed Cons.IH paths_exist_def paths_of_def Let_def)
  qed
qed

lemma check_section_closed:
  "check_section h b fs av w =
     (Inr (av \<and> paths_exist (files w) (paths_of b fs)),
      w\<lparr>stdout := stdout w @ h # report_lines (files w) b fs av @ [[]],
        syscalls := syscalls w @ stat_calls (files w) b fs av\<rparr>)"
  by (simp add: check_section_def check_files_closed print_def)

lemma paths_exist_append:
  "paths_exist F (xs @ ys) = (paths_exist F xs \<and> paths_exist F ys)"
  by (simp add: paths_exist_def)

lemma paths_of_append: "paths_of b (xs @ ys) = paths_of b xs @ paths_of b ys"
  by (simp add: paths_of_def)

lemma stat_calls_append:
  "stat_calls F b (xs @ ys) av =
     stat_calls F b xs av @ stat_calls F b ys (av \<and> paths_exist F (paths_of b xs))"
  by (induction xs arbitrary: av)
     (auto simp: paths_exist_def paths_of_def split: option.splits)

lemma report_lines_append:
  "report_lines F b (xs @ ys) av =
     report_lines F b xs av @ report_lines F b ys (av \<and> paths_exist F (paths_of b xs))"
  by (induction xs arbitrary: av)
     (auto simp: paths_exist_def paths_of_def split: option.splits)

lemma steps_2_to_5_closed:
  "steps_2_to_5 b av w =
     (Inr (av \<and> paths_exist (files w) (checked_paths b)),
      w\<lparr>stdout := stdout w @ sections_lines (files w) b av,
        syscalls := syscalls w @ stat_calls (files w) b checked_files av\<rparr>)"
  by (simp add: steps_2_to_5_def check_section_closed sections_lines_def checked_files_def
      checked_paths_def paths_of_append paths_exist_append stat_calls_append Let_def
      paths_of_def [symmetric] conj_assoc)

lemma main_unfold:
  "main b w =
     (case check_manifest b True
             (print [] (print (replicate 60 (CHR ''=''))
               (print ''TAB MEMORY ASSISTANT - VALIDATION CHECK''
                 (print (replicate 60 (CHR ''='')) w)))) of
        (Inl e, w2) \<Rightarrow> (Inl e, w2)
      | (Inr av, w2) \<Rightarrow>
          (case steps_2_to_5 b av w2 of
             (Inl e, w6) \<Rightarrow> (Inl e, w6)
           | (Inr av', w6) \<Rightarrow> (case summary b av' w6 of (code, w7) \<Rightarrow> (Inr code, w7))))"
  by (simp add: main_def steps_2_to_5_def Let_def split: prod.splits sum.splits)

lemma summary_closed:
  "summary b av w = (if av then 0 else 1, w\<lparr>stdout := stdout w @ summary_lines b av\<rparr>)"
  by (simp add: summary_def summary_lines_def print_def Let_def)

lemma validate_json_closed:
  "validate_json p w =
     (let r = (case files w p of None \<Rightarrow> Raises_Exception (errno2 p) | Some e \<Rightarrow> json_load e)
      in ((case r of Loaded v \<Rightarrow> (True, v) | _ \<Rightarrow> (False, JNull)),
          w\<lparr>stdout := stdout w @ [validate_line p r],
            syscalls := syscalls w @ [Open_read p]\<rparr>))"
  by (simp add: validate_json_def open_json_load_def print_def Let_def
      split: option.splits load_result.splits)

lemma check_manifest_failed:
  assumes "\<forall>v. manifest_outcome (files w) b \<noteq> Loaded v"
  shows "check_manifest b av w =
     (Inr False,
      w\<lparr>stdout := stdout w @ [''1. Checking manifest.json...'',
                    validate_line (manifest_path b) (manifest_outcome (files w) b), []],
        syscalls := syscalls w @ [Open_read (manifest_path b)]\<rparr>)"
  using assms
  by (simp add: check_manifest_def validate_json_closed manifest_outcome_def manifest_path_def
      print_def Let_def split: option.splits load_result.splits)


lemma check_manifest_dict:
  assumes "manifest_outcome (files w) b = Loaded (JObject d)" and "d \<noteq> []"
  shows "check_manifest b av w =
     (Inr av,
      w\<lparr>stdout := stdout w @ [''1. Checking manifest.json...'',
                    ''[OK] Valid JSON: '' @ manifest_path b] @ field_lines d @ [[]],
        syscalls := syscalls w @ [Open_read (manifest_path b)]\<rparr>)"
  using assms
  by (simp add: check_manifest_def validate_json_closed manifest_outcome_def manifest_path_def
      print_fields_def field_lines_def
      print_def Let_def split: option.splits load_result.splits)

lemma check_manifest_raises:
  assumes "manifest_outcome (files w) b = Loaded v" and "truthy v" and "\<not> is_dict v"
  shows "check_manifest b av w =
     (Inl (AttributeError
            (repr_str (type_name v) @ '' object has no attribute '' @ repr_str ''get'')),
      w\<lparr>stdout := stdout w @ [''1. Checking manifest.json...'',
                    ''[OK] Valid JSON: '' @ manifest_path b],
        syscalls := syscalls w @ [Open_read (manifest_path b)]\<rparr>)"
  using assms
  by (cases v)
     (simp_all add: check_manifest_def validate_json_closed manifest_outcome_def manifest_path_def
      print_fields_def print_def Let_def split: option.splits load_result.splits)


lemma main_manifest_failed:
  assumes "\<forall>v. manifest_outcome (files w) b \<noteq> Loaded v"
  shows "main b w =
     (Inr 1,
      w\<lparr>stdout := stdout w @ banner_lines @
            [''1. Checking manifest.json...'',
             validate_line (manifest_path b) (manifest_outcome (files w) b), []]
            @ sections_lines (files w) b False @ summary_lines b False,
        syscalls := syscalls w @ [Open_read (manifest_path b)]\<rparr>)"
  using assms
  by (simp add: main_unfold check_manifest_failed steps_2_to_5_closed summary_closed
      banner_lines_def print_def)

lemma main_manifest_raises:
  assumes "manifest_outcome (files w) b = Loaded v" and "truthy v" and "\<not> is_dict v"
  shows "main b w =
     (Inl (AttributeError
            (repr_str (type_name v) @ '' object has no attribute '' @ repr_str ''get'')),
      w\<lparr>stdout := stdout w @ banner_lines @
            [''1. Checking manifest.json...'', ''[OK] Valid JSON: '' @ manifest_path b],
        syscalls := syscalls w @ [Open_read (manifest_path b)]\<rparr>)"
  using assms
  by (simp add: main_unfold check_manifest_raises banner_lines_def print_def)


lemma main_manifest_dict:
  assumes "manifest_outcome (files w) b = Loaded (JObject d)" and "d \<noteq> []"
  shows "main b w =
     (Inr (if paths_exist (files w) (checked_paths b) then 0 else 1),
      w\<lparr>stdout := stdout w @ banner_lines @
            [''1. Checking manifest.json...'', ''[OK] Valid JSON: '' @ manifest_path b]
            @ field_lines d @ [[]]
            @ sections_lines (files w) b True
            @ summary_lines b (paths_exist (files w) (checked_paths b)),
        syscalls := syscalls w @ Open_read (manifest_path b)
                      # stat_calls (files w) b checked_files True\<rparr>)"
  using assms
  by (simp add: main_unfold check_manifest_dict steps_2_to_5_closed summary_closed
      banner_lines_def print_def)

lemma start_simps [simp]:
  "files (start F) = F" "stdout (start F) = []" "syscalls (start F) = []"
  by (simp_all add: start_def)

lemma manifest_outcome_Some:
  "F (manifest_path b) = Some e \<Longrightarrow> manifest_outcome F b = json_load e"
  by (simp add: manifest_outcome_def)







lemma ext_dir_manifest:
  "ext_dir m ''/ext/manifest.json'' = Some \<lparr>st_size = 731, json_load = m\<rparr>"
  by (simp add: ext_dir_def)

lemma manifest_path_ext: "manifest_path ''/ext'' = ''/ext/manifest.json''"
  by (simp add: manifest_path_def path_join_def)

lemma checked_paths_ext:
  "checked_paths ''/ext'' =
    [''/ext/sidepanel.html'', ''/ext/styles/variables.css'', ''/ext/styles/components.css'',
     ''/ext/styles/animations.css'', ''/ext/styles/sidepanel.css'',
     ''/ext/scripts/sidepanel.js'', ''/ext/scripts/modal-manager.js'',
     ''/ext/scripts/tab-manager.js'', ''/ext/scripts/storage-manager.js'',
     ''/ext/scripts/background.js'', ''/ext/scripts/content-intent-capture.js'',
     ''/ext/assets/icons/icon16.png'', ''/ext/assets/icons/icon48.png'',
     ''/ext/assets/icons/icon192.png'']"
  by (simp add: checked_paths_def checked_files_def html_files_def css_files_def js_files_def
      icon_files_def path_join_def)




subsection \<open>C1: everything present\<close>






subsection \<open>C3: a manifest that is not JSON\<close>

text \<open>
  C3. When \<^verbatim>\<open>manifest.json\<close> exists and \<^verbatim>\<open>json.load\<close> rejects its text with a
  \<^verbatim>\<open>JSONDecodeError\<close>, \<^verbatim>\<open>main\<close> returns 1 and prints the line
  \<^verbatim>\<open>[FAIL] Invalid JSON in <path>: <message>\<close> for the manifest.
\<close>

theorem malformed_manifest_fails:
  assumes "F (manifest_path b) = Some e" and "json_load e = Raises_JSONDecodeError msg"
  shows "fst (main b (start F)) = Inr 1
       \<and> ''[FAIL] Invalid JSON in '' @ manifest_path b @ '': '' @ msg
           \<in> set (stdout (snd (main b (start F))))"
proof -
  have m: "manifest_outcome (files (start F)) b = Raises_JSONDecodeError msg"
    using assms by (simp add: manifest_outcome_Some)
  then have "\<forall>v. manifest_outcome (files (start F)) b \<noteq> Loaded v" by simp
  from main_manifest_failed [OF this] m show ?thesis by simp
qed

theorem malformed_manifest_fails_witness:
  "fst (main ''/ext'' (start (ext_dir (Raises_JSONDecodeError
          ''Expecting property name enclosed in double quotes: line 1 column 2 (char 1)'')))) = Inr 1
   \<and> ''[FAIL] Invalid JSON in /ext/manifest.json: Expecting property name enclosed in double quotes: line 1 column 2 (char 1)''
       \<in> set (stdout (snd (main ''/ext'' (start (ext_dir (Raises_JSONDecodeError
          ''Expecting property name enclosed in double quotes: line 1 column 2 (char 1)''))))))"
  using malformed_manifest_fails [of "ext_dir (Raises_JSONDecodeError
          ''Expecting property name enclosed in double quotes: line 1 column 2 (char 1)'')" "''/ext''"
      "\<lparr>st_size = 731, json_load = Raises_JSONDecodeError
          ''Expecting property name enclosed in double quotes: line 1 column 2 (char 1)''\<rparr>"
      "''Expecting property name enclosed in double quotes: line 1 column 2 (char 1)''"]
  by (simp add: manifest_path_ext ext_dir_manifest)

subsection \<open>C8: the command line\<close>

text \<open>
  C8. Two runs on the same files print the same lines and end the same way whatever the
  command-line arguments are: the script does not read them.
\<close>

theorem argv_ignored: "script argv1 b w = script argv2 b w"
  by (simp add: script_def)

subsection \<open>C9: a manifest that is no object\<close>

text \<open>
  C9. When \<^verbatim>\<open>manifest.json\<close> loads as a truthy value that is not a dict, \<^verbatim>\<open>main\<close>
  raises \<^verbatim>\<open>AttributeError\<close> at the first \<^verbatim>\<open>manifest_data.get\<close>. Nothing is printed after
  the \<^verbatim>\<open>[OK] Valid JSON\<close> line, so there is no summary, no exit code is returned, and
  the process ends with a traceback.
\<close>

theorem non_object_manifest_raises:
  assumes "F (manifest_path b) = Some e" and "json_load e = Loaded v"
    and "truthy v" and "\<not> is_dict v"
  shows "fst (main b (start F))
           = Inl (AttributeError
                (repr_str (type_name v) @ '' object has no attribute '' @ repr_str ''get''))
       \<and> stdout (snd (main b (start F)))
           = [replicate 60 (CHR ''=''), ''TAB MEMORY ASSISTANT - VALIDATION CHECK'',
              replicate 60 (CHR ''=''), [], ''1. Checking manifest.json...'',
              ''[OK] Valid JSON: '' @ manifest_path b]
       \<and> fst (script argv b (start F))
           = Traceback (AttributeError
                (repr_str (type_name v) @ '' object has no attribute '' @ repr_str ''get''))"
proof -
  have m: "manifest_outcome (files (start F)) b = Loaded v"
    using assms by (simp add: manifest_outcome_Some)
  from main_manifest_raises [OF m assms(3,4)] show ?thesis
    by (simp add: script_def banner_lines_def)
qed

theorem non_object_manifest_raises_witness:
  "fst (main ''/ext'' (start (ext_dir (Loaded (JString ''x'')))))
     = Inl (AttributeError (repr_str ''str'' @ '' object has no attribute '' @ repr_str ''get''))
   \<and> stdout (snd (main ''/ext'' (start (ext_dir (Loaded (JString ''x''))))))
       = [replicate 60 (CHR ''=''), ''TAB MEMORY ASSISTANT - VALIDATION CHECK'',
          replicate 60 (CHR ''=''), [], ''1. Checking manifest.json...'',
          ''[OK] Valid JSON: /ext/manifest.json'']"
  using non_object_manifest_raises [of "ext_dir (Loaded (JString ''x''))" "''/ext''"
      "\<lparr>st_size = 731, json_load = Loaded (JString ''x'')\<rparr>" "JString ''x''"]
  by (simp add: manifest_path_ext ext_dir_manifest)

subsection \<open>C4: fields the manifest does not have\<close>




subsection \<open>The example directory, evaluated\<close>

lemma bar60: "replicate 60 (CHR ''='') = ''============================================================''"
  by (simp add: numeral_eq_Suc)







subsection \<open>The fourteen checked files\<close>

lemma checked_files_list:
  "checked_files =
     [(''sidepanel.html'', ''Side Panel''),
      (''styles/variables.css'', ''Design tokens''),
      (''styles/components.css'', ''UI components''),
      (''styles/animations.css'', ''Animations''),
      (''styles/sidepanel.css'', ''Side Panel styles''),
      (''scripts/sidepanel.js'', ''Side Panel logic''),
      (''scripts/modal-manager.js'', ''Modal manager''),
      (''scripts/tab-manager.js'', ''Tab manager''),
      (''scripts/storage-manager.js'', ''Storage manager''),
      (''scripts/background.js'', ''Background worker''),
      (''scripts/content-intent-capture.js'', ''Content script''),
      (''assets/icons/icon16.png'', ''16x16 icon''),
      (''assets/icons/icon48.png'', ''48x48 icon''),
      (''assets/icons/icon192.png'', ''128x128 icon'')]"
  by (simp add: checked_files_def html_files_def css_files_def js_files_def icon_files_def)

lemma checked_paths_paths_of: "checked_paths b = paths_of b checked_files"
  by (simp add: checked_paths_def paths_of_def)

lemma distinct_filenames: "distinct (map fst checked_files)"
  by (simp add: checked_files_list)

lemma distinct_descs: "distinct (map snd checked_files)"
  by (simp add: checked_files_list)

lemma filenames_relative: "(f, d) \<in> set checked_files \<Longrightarrow> \<not> prefix ''/'' f"
  by (auto simp: checked_files_list)


lemma path_join_inj:
  "\<not> prefix ''/'' f \<Longrightarrow> \<not> prefix ''/'' g \<Longrightarrow> path_join b f = path_join b g \<Longrightarrow> f = g"
  by (simp add: path_join_def split: if_splits)

lemma checked_path_inj:
  assumes "(f, d) \<in> set checked_files" and "(g, d') \<in> set checked_files"
    and "path_join b f = path_join b g"
  shows "f = g \<and> d = d'"
proof -
  have fg: "f = g"
    using path_join_inj [OF filenames_relative [OF assms(1)] filenames_relative [OF assms(2)] assms(3)] .
  have "d = d'"
    using eq_key_imp_eq_value [OF distinct_filenames assms(1)] assms(2) fg by simp
  with fg show ?thesis by simp
qed


lemma distinct_checked_files: "distinct checked_files"
  using distinct_filenames by (simp add: distinct_map)

lemma inj_on_checked_path: "inj_on (\<lambda>fd. path_join b (fst fd)) (set checked_files)"
proof (rule inj_onI)
  fix x y
  assume "x \<in> set checked_files" "y \<in> set checked_files"
    and "path_join b (fst x) = path_join b (fst y)"
  then show "x = y"
    using checked_path_inj [of "fst x" "snd x" "fst y" "snd y" b] by (simp add: prod_eq_iff)
qed

lemma distinct_checked_paths: "distinct (checked_paths b)"
  unfolding checked_paths_def
  using distinct_checked_files inj_on_checked_path by (simp add: distinct_map)

subsection \<open>The lines and calls of the loops\<close>

lemma stat_calls_subset:
  "set (stat_calls F b fs av) \<subseteq> Stat ` set (paths_of b fs)"
proof (induction fs arbitrary: av)
  case Nil
  show ?case by simp
next
  case (Cons x fs)
  obtain g d where x: "x = (g, d)" by (cases x)
  have "set (stat_calls F b (x # fs) av)
          \<subseteq> insert (Stat (path_join b g)) (set (stat_calls F b fs True))"
    by (auto simp: x split: option.splits)
  with Cons.IH [of True] show ?case by (auto simp: x paths_of_def)
qed

lemma report_lines_cases:
  assumes "l \<in> set (report_lines F b fs av)"
  shows "\<exists>f d. (f, d) \<in> set fs \<and>
           (l = missing_line d (path_join b f)
            \<or> (\<exists>n. l = ok_line d (path_join b f) n))"
  using assms
proof (induction fs arbitrary: av)
  case Nil
  then show ?case by simp
next
  case (Cons fd fs)
  obtain f d where fd: "fd = (f, d)" by (cases fd)
  show ?case
  proof (cases "l \<in> set (report_lines F b fs True)")
    case True
    from Cons.IH [OF True] show ?thesis by auto
  next
    case False
    with Cons.prems have "l = missing_line d (path_join b f)
        \<or> (\<exists>n. l = ok_line d (path_join b f) n)"
      by (auto simp: fd split: if_splits option.splits)
    then show ?thesis by (auto simp: fd)
  qed
qed


lemma short_circuit_report:
  "\<not> (av \<and> paths_exist F (paths_of b pre)) \<Longrightarrow>
     report_lines F b (pre @ post) av = report_lines F b pre av"
proof -
  assume "\<not> (av \<and> paths_exist F (paths_of b pre))"
  then have "(av \<and> paths_exist F (paths_of b pre)) = False" by blast
  then show ?thesis by (simp only: report_lines_append report_lines_False append_Nil2)
qed

lemma short_circuit_stat:
  "\<not> (av \<and> paths_exist F (paths_of b pre)) \<Longrightarrow>
     stat_calls F b (pre @ post) av = stat_calls F b pre av"
proof -
  assume "\<not> (av \<and> paths_exist F (paths_of b pre))"
  then have "(av \<and> paths_exist F (paths_of b pre)) = False" by blast
  then show ?thesis by (simp only: stat_calls_append stat_calls_False append_Nil2)
qed

lemma stat_absent_reported:
  assumes "Stat p \<in> set (stat_calls F b fs av)" and "F p = None"
  shows "(\<exists>d. missing_line d p \<in> set (report_lines F b fs av))
       \<and> \<not> paths_exist F (paths_of b fs)"
  using assms
proof (induction fs arbitrary: av)
  case Nil
  then show ?case by simp
next
  case (Cons x fs)
  obtain g d' where x: "x = (g, d')" by (cases x)
  from Cons.prems(1) have av: av by (cases av) (simp_all add: x)
  show ?case
  proof (cases "F (path_join b g)")
    case None
    with Cons.prems av have "p = path_join b g" by (simp add: x)
    with None av show ?thesis by (auto simp: x paths_exist_def paths_of_def)
  next
    case (Some e)
    with Cons.prems av have "Stat p \<in> set (stat_calls F b fs True)" by (auto simp: x)
    from Cons.IH [OF this Cons.prems(2)] Some av show ?thesis
      by (auto simp: x paths_exist_def paths_of_def)
  qed
qed


lemma main_cases:
  obtains (failed) "\<forall>v. manifest_outcome (files w) b \<noteq> Loaded v"
  | (raises) v where "manifest_outcome (files w) b = Loaded v" "truthy v" "\<not> is_dict v"
  | (passes) v where "manifest_outcome (files w) b = Loaded v" "is_dict v \<or> \<not> truthy v"
  by (cases "manifest_outcome (files w) b") auto





lemma field_lines_tab_story:
  "field_lines [(''manifest_version'', JInt 3), (''name'', JString ''Tab Story''),
                (''version'', JString ''1.0.0'')] =
     [''   Name: Tab Story'', ''   Version: 1.0.0'', ''   Manifest Version: 3'']"
  by (simp add: field_lines_def dict_get_def py_str_def str_int_def str_nat.simps)


subsection \<open>C2: one path absent\<close>






subsection \<open>C5: a report line for each checked file\<close>

text \<open>
  C5 says that every run prints a report line for each of the fourteen checked files.
  The run below has every file but \<^verbatim>\<open>sidepanel.html\<close>: its output shows the one
  \<^verbatim>\<open>MISSING\<close> line, and then the headings of steps 3, 4 and 5 with no line for any of
  the thirteen files that are there.
\<close>

theorem first_missing_file_ends_report:
  "fst (main ''/ext'' (start ((ext_dir (Loaded tab_story))(''/ext/sidepanel.html'' := None)))) = Inr 1
   \<and> stdout (snd (main ''/ext'' (start ((ext_dir (Loaded tab_story))(''/ext/sidepanel.html'' := None)))))
     = [''============================================================'',
        ''TAB MEMORY ASSISTANT - VALIDATION CHECK'',
        ''============================================================'',
        [],
        ''1. Checking manifest.json...'',
        ''[OK] Valid JSON: /ext/manifest.json'',
        ''   Name: Tab Story'',
        ''   Version: 1.0.0'',
        ''   Manifest Version: 3'',
        [],
        ''2. Checking HTML files...'',
        ''[FAIL] Side Panel: /ext/sidepanel.html - MISSING!'',
        [],
        ''3. Checking CSS files...'',
        [],
        ''4. Checking JavaScript files...'',
        [],
        ''5. Checking icon files...'',
        [],
        ''============================================================'',
        ''[ERROR] SOME CHECKS FAILED!'',
        [],
        ''Please fix the issues above before loading the extension.'',
        ''============================================================'']"
proof -
  let ?F = "(ext_dir (Loaded tab_story))(''/ext/sidepanel.html'' := None)"
  let ?d = "[(''manifest_version'', JInt 3), (''name'', JString ''Tab Story''),
             (''version'', JString ''1.0.0'')]"
  have m: "manifest_outcome (files (start ?F)) ''/ext'' = Loaded (JObject ?d)"
    by (simp add: manifest_outcome_def manifest_path_ext ext_dir_manifest tab_story_def)
  have "?d \<noteq> []" by simp
  note run = main_manifest_dict [OF m this]
  have nex: "paths_exist ?F (checked_paths ''/ext'') = False"
    by (simp add: checked_paths_ext paths_exist_def)
  have sec: "sections_lines ?F ''/ext'' True =
     [''2. Checking HTML files...'', ''[FAIL] Side Panel: /ext/sidepanel.html - MISSING!'', [],
      ''3. Checking CSS files...'', [], ''4. Checking JavaScript files...'', [],
      ''5. Checking icon files...'', []]"
    by (simp add: sections_lines_def html_files_def paths_exist_def paths_of_def path_join_def
        missing_line_def)
  show ?thesis
    unfolding run
    by (simp add: nex sec manifest_path_ext field_lines_tab_story
        banner_lines_def summary_lines_def bar60)
qed

end
